theory Spec2Isabelle
  imports Main "HOL-Library.Word" "HOL-Library.Sublist"
begin

unbundle bit_operations_syntax

section \<open>PsfLauncher: the launcher of the Package Support Framework\<close>

text \<open>
  A shallow embedding of \<^verbatim>\<open>src/PsfLauncher/main.cpp\<close>. The function \<^verbatim>\<open>launcher_main\<close>
  talks to the operating system, so the model is a function from what the outside
  world answers (the record \<open>world\<close>) to the list of calls the launcher makes, in order
  (the trace, a list of \<open>event\<close>s), and the way the function ends (\<open>outcome\<close>).
\<close>

subsection \<open>Strings, numbers and constants\<close>

text \<open>
  Wide strings (\<^verbatim>\<open>std::wstring\<close>, \<^verbatim>\<open>const wchar_t*\<close>) and narrow strings are both lists of
  characters; \<^verbatim>\<open>widen\<close> is then the identity. \<^verbatim>\<open>DWORD\<close> is a 32-bit word, and the
  \<^verbatim>\<open>int\<close> that \<^verbatim>\<open>launcher_main\<close> returns is kept as its 32-bit pattern. Handles are
  64-bit words.
\<close>

type_synonym wstring = string
type_synonym dword = "32 word"
type_synonym handle = "64 word"

abbreviation TAB :: string where "TAB \<equiv> [CHR 0x09]"
abbreviation NL :: string where "NL \<equiv> [CHR 0x0A]"
abbreviation DQ :: string where "DQ \<equiv> [CHR 0x22]"
abbreviation BSL :: string where "BSL \<equiv> [CHR 0x5C]"

definition widen :: "string \<Rightarrow> wstring" where
  "widen s = s"

text \<open>The constants of \<^verbatim>\<open>windows.h\<close> and \<^verbatim>\<open>shellapi.h\<close> that the launcher names.\<close>

definition ERROR_INVALID_HANDLE :: dword where "ERROR_INVALID_HANDLE = 6"
definition ERROR_ELEVATION_REQUIRED :: dword where "ERROR_ELEVATION_REQUIRED = 740"
definition ERROR_NOT_FOUND :: dword where "ERROR_NOT_FOUND = 1168"
definition WAIT_OBJECT_0 :: dword where "WAIT_OBJECT_0 = 0"
definition WAIT_FAILED :: dword where "WAIT_FAILED = 0xFFFFFFFF"
definition INFINITE :: dword where "INFINITE = 0xFFFFFFFF"
definition SEE_MASK_NOCLOSEPROCESS :: dword where "SEE_MASK_NOCLOSEPROCESS = 0x40"
definition SEE_MASK_WAITFORINPUTIDLE :: dword where "SEE_MASK_WAITFORINPUTIDLE = 0x02000000"
definition COINIT_APARTMENTTHREADED :: dword where "COINIT_APARTMENTTHREADED = 0x2"
definition COINIT_DISABLE_OLE1DDE :: dword where "COINIT_DISABLE_OLE1DDE = 0x4"

text \<open>\<^verbatim>\<open>ss << err\<close> writes a \<^verbatim>\<open>DWORD\<close> in decimal.\<close>

fun decimal :: "nat \<Rightarrow> string" where
  "decimal n =
     (if n < 10 then [char_of (48 + n)]
      else decimal (n div 10) @ [char_of (48 + n mod 10)])"

declare decimal.simps [simp del]

subsection \<open>Case-insensitive strings and the suffix test\<close>

text \<open>
  Modelled from the spec: the comparison of \<^verbatim>\<open>iwstring_view\<close>, the case-insensitive
  string view of \<^verbatim>\<open>psf_utils.h\<close>, which is not among the sources. Two views are equal
  when they have the same length and their characters agree after folding the letters
  \<^verbatim>\<open>A\<close> to \<^verbatim>\<open>Z\<close> to lower case.
\<close>

definition to_lower :: "char \<Rightarrow> char" where
  "to_lower c =
     (if 65 \<le> (of_char c :: nat) \<and> (of_char c :: nat) \<le> 90
      then char_of ((of_char c :: nat) + 32) else c)"

definition iequal :: "wstring \<Rightarrow> wstring \<Rightarrow> bool" where
  "iequal a b = (map to_lower a = map to_lower b)"

text \<open>
  \<^verbatim>\<open>check_suffix_if\<close> (lines 22 to 30). \<^verbatim>\<open>str.substr(str.length() - suffix.length())\<close>
  is the view from that position to the end; the length test guards the subtraction.
\<close>

definition check_suffix_if :: "wstring \<Rightarrow> wstring \<Rightarrow> bool" where
  "check_suffix_if str sfx =
     (if length str \<ge> length sfx \<and>
         iequal (drop (length str - length sfx) str) sfx
      then True else False)"

subsection \<open>Configuration\<close>

text \<open>
  Modelled from the spec: the configuration objects returned by
  \<^verbatim>\<open>PSFQueryCurrentAppLaunchConfig\<close> and \<^verbatim>\<open>PSFQueryAppMonitorConfig\<close> (\<^verbatim>\<open>psf_config.h\<close>
  and \<^verbatim>\<open>psf_runtime.h\<close> are not among the sources). The spec gives every field its
  type, so a field is its typed value, or \<open>None\<close> when the key is absent: \<^verbatim>\<open>try_get\<close>
  then returns a null pointer, and \<^verbatim>\<open>get\<close> throws.
\<close>

record app_config =
  app_executable :: "wstring option"
  app_workingDirectory :: "wstring option"
  app_arguments :: "wstring option"

record monitor_config =
  mon_executable :: "wstring option"
  mon_arguments :: "wstring option"
  mon_asadmin :: "bool option"
  mon_wait :: "bool option"

subsection \<open>Exceptions, events and the outside world\<close>

datatype exn =
    win32_error dword string  \<comment> \<open>\<^verbatim>\<open>throw_win32(code, message)\<close>\<close>
  | key_not_found string      \<comment> \<open>\<^verbatim>\<open>get\<close> of a key that is absent\<close>
  | length_error              \<comment> \<open>\<^verbatim>\<open>resize\<close> to more than \<^verbatim>\<open>max_size()\<close>\<close>

text \<open>An argument of \<^verbatim>\<open>Log\<close> after the format string: \<^verbatim>\<open>%ls\<close> or \<^verbatim>\<open>%x\<close>.\<close>

datatype log_arg = ArgW wstring | ArgX dword

text \<open>
  The calls that leave the launcher, with the arguments that vary. A null pointer
  argument is \<open>None\<close>.
  \<^item> \<open>CreateProcessW lpApplicationName lpCommandLine bInheritHandles lpCurrentDirectory wShowWindow\<close>
  \<^item> \<open>ShellExecuteEx fMask lpVerb lpFile lpParameters lpDirectory nShow\<close>
  \<^item> \<open>WaitForSingleObject hHandle dwMilliseconds\<close>, \<open>WaitForInputIdle hProcess dwMilliseconds\<close>,
    \<open>Sleep dwMilliseconds\<close>
\<close>

text \<open>
  A \<^verbatim>\<open>const wchar_t*\<close> obtained from \<^verbatim>\<open>c_str()\<close>: \<open>valid s\<close> while the string that owns
  the buffer is alive, \<open>dangling s\<close> once that string has been destroyed (\<open>s\<close> is what
  the buffer held). What a callee reads through a dangling pointer is undefined.
\<close>

datatype c_str = valid wstring | dangling wstring

datatype event =
    Log string "log_arg list"
  | PSFReportError wstring
  | CreateProcessW "wstring option" wstring bool "wstring option" "16 word"
  | ShellExecuteEx dword "wstring option" wstring wstring "c_str option" "16 word"
  | WaitForSingleObject handle dword
  | GetExitCodeProcess handle
  | WaitForInputIdle handle dword
  | Sleep dword
  | CloseHandle handle
  | CoInitializeEx dword

text \<open>
  What a call that returns \<^verbatim>\<open>BOOL\<close> answers: success with what it filled in, or failure
  with the value \<^verbatim>\<open>GetLastError()\<close> gives afterwards.
\<close>

datatype create_result = Created handle | CreateFailed dword
datatype shell_result = ShellOK "64 word" handle | ShellFailed dword
datatype exit_result = ExitCode dword | ExitFailed dword

text \<open>
  The outside world of one run. The path operations of \<^verbatim>\<open>std::filesystem\<close>, the message
  table of \<^verbatim>\<open>std::system_category()\<close> and the two helpers of the catch-all handler
  (\<^verbatim>\<open>psf_utils.h\<close>) are parameters: nothing is assumed about them, beyond what
  \<open>win32_from_caught_exception\<close> below takes from the spec. The monitor's calls
  and the main application's calls have answers of their own.
\<close>

record world =
  PSFQueryCurrentAppLaunchConfig :: "app_config option"
  PSFQueryAppMonitorConfig :: "monitor_config option"
  PSFQueryPackageRootPath :: wstring
  path_append :: "wstring \<Rightarrow> wstring \<Rightarrow> wstring"
  path_filename :: "wstring \<Rightarrow> wstring"
  path_parent_path :: "wstring \<Rightarrow> wstring"
  system_message :: "dword \<Rightarrow> string"
  message_from_caught_exception :: "exn \<Rightarrow> string"
  uncategorized_error_code :: dword
  monitor_ShellExecuteEx :: shell_result
  monitor_CreateProcessW :: create_result
  main_CreateProcessW :: create_result
  main_ShellExecuteEx :: shell_result
  main_WaitForSingleObject :: dword
  main_WaitForSingleObject_LastError :: dword
  main_GetExitCodeProcess :: exit_result

text \<open>
  Modelled from the spec: \<^verbatim>\<open>throw_win32\<close> and \<^verbatim>\<open>win32_from_caught_exception\<close> of
  \<^verbatim>\<open>psf_utils.h\<close>, which is not among the sources. The spec has the boundary at the entry
  point convert any uncaught failure into an OS error code, and a configuration error
  (a missing or invalid configuration) map to the "not found" code: an exception thrown
  by \<^verbatim>\<open>throw_win32\<close> gives the code it was thrown with, a missing key gives
  \<^verbatim>\<open>ERROR_NOT_FOUND\<close>, and the code of any other exception is left to the world.
\<close>

definition win32_from_caught_exception :: "world \<Rightarrow> exn \<Rightarrow> dword" where
  "win32_from_caught_exception w e =
     (case e of
        win32_error code msg \<Rightarrow> code
      | key_not_found k \<Rightarrow> ERROR_NOT_FOUND
      | length_error \<Rightarrow> uncategorized_error_code w)"

text \<open>
  How a block of \<^verbatim>\<open>launcher_main\<close> ends: a \<^verbatim>\<open>return\<close>, a C++ exception on its way to
  the \<^verbatim>\<open>catch (...)\<close> of line 224, or a member call through a null pointer, which no
  handler catches. Exhaustion of memory is not modelled.
\<close>

datatype flow = Return dword | Throw exn | NullDeref

datatype outcome = Returned dword | Crashed

subsection \<open>The blocks of \<^verbatim>\<open>launcher_main\<close>\<close>

text \<open>
  \<^verbatim>\<open>s.resize(s.size() - k)\<close>: \<^verbatim>\<open>size()\<close> is unsigned, so when the string is shorter
  than \<open>k\<close> the difference wraps to a value beyond \<^verbatim>\<open>max_size()\<close> and \<^verbatim>\<open>resize\<close>
  throws \<^verbatim>\<open>std::length_error\<close>; otherwise the last \<open>k\<close> characters are dropped.
\<close>

definition resize_minus :: "nat \<Rightarrow> wstring \<Rightarrow> exn + wstring" where
  "resize_minus k s =
     (if length s < k then Inl length_error else Inr (take (length s - k) s))"

text \<open>Events emitted before the rest of a block runs.\<close>

definition emit :: "event list \<Rightarrow> event list \<times> flow \<Rightarrow> event list \<times> flow" where
  "emit es r = (es @ fst r, snd r)"

text \<open>\<^verbatim>\<open>LaunchMonitorInBackground\<close> (lines 232 to 306). It returns nothing.\<close>

definition LaunchMonitorInBackground ::
  "world \<Rightarrow> wstring \<Rightarrow> wstring \<Rightarrow> wstring \<Rightarrow> bool \<Rightarrow> bool \<Rightarrow> event list" where
  "LaunchMonitorInBackground w packageRoot executable arguments wait asadmin =
     (let cmd = DQ @ path_append w packageRoot executable @ DQ in
      if asadmin then
        (let fMask = (if wait then SEE_MASK_NOCLOSEPROCESS
                      else SEE_MASK_NOCLOSEPROCESS OR SEE_MASK_WAITFORINPUTIDLE) in
         ShellExecuteEx fMask (Some ''runas'') cmd arguments None 1 #
         (case monitor_ShellExecuteEx w of
            ShellOK hInstApp hProcess \<Rightarrow>
              if wait then [WaitForSingleObject hProcess INFINITE, CloseHandle hProcess]
              else [WaitForInputIdle hProcess 1000, Sleep 5000]
          | ShellFailed err \<Rightarrow> []))
      else
        (let cmdarg = cmd @ '' '' @ arguments in
         CreateProcessW None cmdarg True None 1 #
         (case monitor_CreateProcessW w of
            CreateFailed err \<Rightarrow>
              if err = ERROR_ELEVATION_REQUIRED then
                [Log (''error starting monitor using CreateProcessW. You must specify 'monitor/asadmin' in config.json'' @ NL) []]
              else
                [Log (''error starting monitor using CreateProcessW. Error=0x%x'' @ NL) [ArgX err]]
          | Created hProcess \<Rightarrow>
              if wait then [WaitForSingleObject hProcess INFINITE] else [])))"

text \<open>
  Lines 90 to 105. The pointers \<^verbatim>\<open>monitor_executable\<close> and \<^verbatim>\<open>monitor_arguments\<close> come
  from \<^verbatim>\<open>try_get\<close> and are used without a test: line 103 calls \<^verbatim>\<open>as_string\<close> through the
  first, line 104 through both, before \<^verbatim>\<open>LaunchMonitorInBackground\<close> is entered. The
  result is the trace and whether control reaches line 107.
\<close>

definition monitor_step :: "world \<Rightarrow> wstring \<Rightarrow> event list \<times> bool" where
  "monitor_step w packageRoot =
     (case PSFQueryAppMonitorConfig w of
        None \<Rightarrow> ([], True)
      | Some monitor \<Rightarrow>
          (let asadmin = (case mon_asadmin monitor of Some b \<Rightarrow> b | None \<Rightarrow> False);
               wait = (case mon_wait monitor of Some b \<Rightarrow> b | None \<Rightarrow> False)
           in case mon_executable monitor of
                None \<Rightarrow> ([], False)
              | Some monitor_executable \<Rightarrow>
                  (case mon_arguments monitor of
                     None \<Rightarrow>
                       ([Log (TAB @ ''Creating the monitor: %ls'') [ArgW monitor_executable]], False)
                   | Some monitor_arguments \<Rightarrow>
                       (Log (TAB @ ''Creating the monitor: %ls'') [ArgW monitor_executable] #
                        LaunchMonitorInBackground w packageRoot monitor_executable
                          monitor_arguments wait asadmin, True))))"

text \<open>
  Lines 107 to 122, the local \<^verbatim>\<open>wd\<close>. No later line reads it; the block can still
  throw out of \<^verbatim>\<open>resize\<close>.
\<close>

definition working_directory_fixup ::
  "world \<Rightarrow> wstring \<Rightarrow> wstring \<Rightarrow> wstring option \<Rightarrow> exn + wstring" where
  "working_directory_fixup w packageRoot exePath dirStr =
     (case dirStr of
        None \<Rightarrow>
          (case resize_minus 1 (path_parent_path w exePath) of
             Inl e \<Rightarrow> Inl e
           | Inr wdwd \<Rightarrow> Inr (DQ @ wdwd @ DQ))
      | Some d \<Rightarrow>
          (case resize_minus 1 (path_append w packageRoot d) of
             Inl e \<Rightarrow> Inl e
           | Inr wdwd \<Rightarrow> Inr wdwd))"

text \<open>
  The \<^verbatim>\<open>switch\<close> on the value of \<^verbatim>\<open>WaitForSingleObject\<close>, shared in shape by lines 156
  to 166 and 208 to 220: \<open>k\<close> is what the \<^verbatim>\<open>WAIT_OBJECT_0\<close> case does.
\<close>

definition wait_switch :: "world \<Rightarrow> event list \<times> flow \<Rightarrow> event list \<times> flow" where
  "wait_switch w k =
     (if main_WaitForSingleObject w = WAIT_OBJECT_0 then k
      else if main_WaitForSingleObject w = WAIT_FAILED
      then ([], Return (main_WaitForSingleObject_LastError w))
      else ([], Return ERROR_INVALID_HANDLE))"

text \<open>Lines 127 to 173, the branch taken for a name ending in \<^verbatim>\<open>.exe\<close>.\<close>

definition direct_launch ::
  "world \<Rightarrow> wstring \<Rightarrow> wstring \<Rightarrow> wstring \<Rightarrow> wstring option \<Rightarrow> dword \<Rightarrow> event list \<times> flow" where
  "direct_launch w exeName exePath cmdLine lpCurrentDirectory cmdShow =
     emit [Log (TAB @ ''Creating process %ls'') [ArgW cmdLine],
           CreateProcessW (Some exePath) cmdLine True lpCurrentDirectory (ucast cmdShow)]
       (case main_CreateProcessW w of
          CreateFailed err \<Rightarrow>
            (case resize_minus 3 (widen (system_message w err)) of
               Inl e \<Rightarrow> ([], Throw e)
             | Inr msg \<Rightarrow>
                 ([PSFReportError
                     (''ERROR: Failed to create detoured process'' @ NL @ ''  Path: '' @ DQ @
                      exeName @ DQ @ NL @ ''  Error: '' @ msg @ '' ('' @ decimal (unat err) @ '')'')],
                  Return err))
        | Created hProcess \<Rightarrow>
            emit [WaitForSingleObject hProcess INFINITE]
              (wait_switch w
                 (emit [GetExitCodeProcess hProcess]
                    (case main_GetExitCodeProcess w of
                       ExitFailed err \<Rightarrow> ([], Return err)
                     | ExitCode exitCode \<Rightarrow> ([], Return exitCode)))))"

text \<open>
  Lines 177 to 221, the branch for every other name. \<^verbatim>\<open>hInstApp\<close> is compared as an
  \<^verbatim>\<open>unsigned long long\<close> and returned through a cast to \<^verbatim>\<open>int\<close>.
\<close>

definition shell_launch ::
  "world \<Rightarrow> wstring \<Rightarrow> wstring \<Rightarrow> wstring \<Rightarrow> c_str option \<Rightarrow> dword \<Rightarrow> event list \<times> flow" where
  "shell_launch w exeName packageRoot exeArgString lpDirectory cmdShow =
     (let nonexePath = path_append w packageRoot exeName in
      emit [CoInitializeEx (COINIT_APARTMENTTHREADED OR COINIT_DISABLE_OLE1DDE),
            Log (TAB @ ''Using Shell launch: %ls %ls'') [ArgW nonexePath, ArgW exeArgString],
            ShellExecuteEx SEE_MASK_NOCLOSEPROCESS None nonexePath exeArgString lpDirectory
              (ucast cmdShow)]
        (case main_ShellExecuteEx w of
           ShellFailed err \<Rightarrow>
             (case resize_minus 3 (widen (system_message w err)) of
                Inl e \<Rightarrow> ([], Throw e)
              | Inr msg \<Rightarrow>
                  ([PSFReportError
                      (''ERROR: Failed to create detoured shell process'' @ NL @ ''  Path: '' @ DQ @
                       exeName @ DQ @ NL @ ''  Error: '' @ msg @ '' ('' @ decimal (unat err) @ '')'')],
                   Return err))
         | ShellOK hInstApp hProcess \<Rightarrow>
             emit [WaitForSingleObject hProcess INFINITE]
               (wait_switch w
                  (if hInstApp > 32 then ([], Return 0)
                   else ([], Return (ucast hInstApp))))))"

subsection \<open>\<^verbatim>\<open>launcher_main\<close>\<close>

text \<open>
  The locals of lines 74 to 88, and the directory argument that lines 141 and 189
  both write as \<^verbatim>\<open>dirStr ? (packageRoot / dirStr).c_str() : nullptr\<close>. On line 141 the
  expression is an argument of the call of \<^verbatim>\<open>CreateProcessW\<close>, and the temporary path
  lives until the call has returned. On line 189 it is the right-hand side of an
  assignment to \<^verbatim>\<open>shex.lpDirectory\<close>: the temporary path is destroyed at the end of that
  statement, and \<^verbatim>\<open>ShellExecuteEx\<close> on line 194 receives a dangling pointer.
\<close>

definition exeArgString :: "app_config \<Rightarrow> wstring" where
  "exeArgString appConfig = (case app_arguments appConfig of Some a \<Rightarrow> a | None \<Rightarrow> [])"

definition exePath :: "world \<Rightarrow> wstring \<Rightarrow> wstring" where
  "exePath w exeName = path_append w (PSFQueryPackageRootPath w) exeName"

definition cmdLine :: "world \<Rightarrow> app_config \<Rightarrow> wstring \<Rightarrow> wstring \<Rightarrow> wstring" where
  "cmdLine w appConfig exeName args =
     DQ @ path_filename w (exePath w exeName) @ DQ @ '' '' @ exeArgString appConfig @ '' '' @ args"

definition directory_argument :: "world \<Rightarrow> app_config \<Rightarrow> wstring option" where
  "directory_argument w appConfig =
     (case app_workingDirectory appConfig of
        Some dirStr \<Rightarrow> Some (path_append w (PSFQueryPackageRootPath w) dirStr)
      | None \<Rightarrow> None)"

definition shell_directory_argument :: "world \<Rightarrow> app_config \<Rightarrow> c_str option" where
  "shell_directory_argument w appConfig =
     (case app_workingDirectory appConfig of
        Some dirStr \<Rightarrow> Some (dangling (path_append w (PSFQueryPackageRootPath w) dirStr))
      | None \<Rightarrow> None)"

text \<open>Lines 125 to 222: the test of the suffix and the two branches.\<close>

definition launch :: "world \<Rightarrow> app_config \<Rightarrow> wstring \<Rightarrow> wstring \<Rightarrow> dword \<Rightarrow> event list \<times> flow" where
  "launch w appConfig exeName args cmdShow =
     (if check_suffix_if exeName ''.exe''
      then direct_launch w exeName (exePath w exeName) (cmdLine w appConfig exeName args)
             (directory_argument w appConfig) cmdShow
      else shell_launch w exeName (PSFQueryPackageRootPath w) (exeArgString appConfig)
             (shell_directory_argument w appConfig) cmdShow)"

text \<open>The body of the function-try-block, lines 66 to 223.\<close>

definition launcher_body :: "world \<Rightarrow> wstring \<Rightarrow> dword \<Rightarrow> event list \<times> flow" where
  "launcher_body w args cmdShow =
     emit [Log (TAB @ ''In Launcher_main()'') []]
       (case PSFQueryCurrentAppLaunchConfig w of
          None \<Rightarrow>
            ([], Throw (win32_error ERROR_NOT_FOUND
                   ''Error: could not find matching appid in config.json and appx manifest''))
        | Some appConfig \<Rightarrow>
            (case app_executable appConfig of
               None \<Rightarrow> ([], Throw (key_not_found ''executable''))
             | Some exeName \<Rightarrow>
                 (let m = monitor_step w (PSFQueryPackageRootPath w)
                  in emit (fst m)
                       (if \<not> snd m then ([], NullDeref)
                        else
                          (case working_directory_fixup w (PSFQueryPackageRootPath w)
                                  (exePath w exeName) (app_workingDirectory appConfig) of
                             Inl e \<Rightarrow> ([], Throw e)
                           | Inr wd \<Rightarrow> launch w appConfig exeName args cmdShow)))))"

text \<open>
  The handler of lines 224 to 229: whatever the body throws is reported and turned
  into a return value. A null dereference is not a C++ exception and passes through.
\<close>

definition catch_all :: "world \<Rightarrow> event list \<times> flow \<Rightarrow> event list \<times> outcome" where
  "catch_all w r =
     (case snd r of
        Return code \<Rightarrow> (fst r, Returned code)
      | Throw e \<Rightarrow>
          (fst r @ [PSFReportError (widen (message_from_caught_exception w e))],
           Returned (win32_from_caught_exception w e))
      | NullDeref \<Rightarrow> (fst r, Crashed))"

definition launcher_main :: "world \<Rightarrow> wstring \<Rightarrow> dword \<Rightarrow> event list \<times> outcome" where
  "launcher_main w args cmdShow = catch_all w (launcher_body w args cmdShow)"

subsection \<open>Reading a trace\<close>

text \<open>
  The two calls that start the main application are told from the monitor's by their
  arguments: the main \<^verbatim>\<open>CreateProcessW\<close> names its application (the monitor's passes
  \<^verbatim>\<open>nullptr\<close>), and the main \<^verbatim>\<open>ShellExecuteEx\<close> has no verb (the monitor's has
  \<^verbatim>\<open>runas\<close>).
\<close>

fun direct_process_event :: "event \<Rightarrow> bool" where
  "direct_process_event (CreateProcessW (Some app) cl inh dir sw) = True"
| "direct_process_event ev = False"

fun shell_dispatch_event :: "event \<Rightarrow> bool" where
  "shell_dispatch_event (ShellExecuteEx fMask None file params dir nShow) = True"
| "shell_dispatch_event ev = False"

fun launch_event :: "event \<Rightarrow> bool" where
  "launch_event (CreateProcessW app cl inh dir sw) = True"
| "launch_event (ShellExecuteEx fMask verb file params dir nShow) = True"
| "launch_event ev = False"

fun report_event :: "event \<Rightarrow> bool" where
  "report_event (PSFReportError s) = True"
| "report_event ev = False"

fun wait_event :: "event \<Rightarrow> bool" where
  "wait_event (WaitForSingleObject h ms) = True"
| "wait_event ev = False"

subsection \<open>A sample world\<close>

text \<open>
  A concrete outside world to run the model in. Its path operations agree with
  \<^verbatim>\<open>std::filesystem::path\<close> on Windows for the paths used below: a package root with
  directories under a drive and no separator at its end, joined with a relative name.
\<close>

definition sample_append :: "wstring \<Rightarrow> wstring \<Rightarrow> wstring" where
  "sample_append p q = p @ BSL @ q"

definition sample_filename :: "wstring \<Rightarrow> wstring" where
  "sample_filename p = rev (takeWhile (\<lambda>c. c \<noteq> CHR 0x5C) (rev p))"

definition sample_parent_path :: "wstring \<Rightarrow> wstring" where
  "sample_parent_path p = rev (drop 1 (dropWhile (\<lambda>c. c \<noteq> CHR 0x5C) (rev p)))"

definition sample_what :: "exn \<Rightarrow> string" where
  "sample_what e = (case e of win32_error code msg \<Rightarrow> msg | key_not_found k \<Rightarrow> k
                    | length_error \<Rightarrow> ''string too long'')"

definition sample_app :: app_config where
  "sample_app =
     \<lparr>app_executable = Some ''app.exe'', app_workingDirectory = None,
      app_arguments = Some ''--flag''\<rparr>"

definition sample_doc :: app_config where
  "sample_doc =
     \<lparr>app_executable = Some ''doc.txt'', app_workingDirectory = None,
      app_arguments = None\<rparr>"

definition sample_monitor :: monitor_config where
  "sample_monitor =
     \<lparr>mon_executable = Some ''mon.exe'', mon_arguments = Some ''-v'',
      mon_asadmin = Some True, mon_wait = Some False\<rparr>"

definition sample_world :: world where
  "sample_world =
     \<lparr>PSFQueryCurrentAppLaunchConfig = Some sample_app,
      PSFQueryAppMonitorConfig = None,
      PSFQueryPackageRootPath = ''C:'' @ BSL @ ''pkg'',
      path_append = sample_append,
      path_filename = sample_filename,
      path_parent_path = sample_parent_path,
      system_message = (\<lambda>err. ''The system cannot find the file specified.'' @ [CHR 0x0D, CHR 0x0A]),
      message_from_caught_exception = sample_what,
      uncategorized_error_code = 574,
      monitor_ShellExecuteEx = ShellOK 42 0x2B0,
      monitor_CreateProcessW = Created 0x2B0,
      main_CreateProcessW = Created 0x1A4,
      main_ShellExecuteEx = ShellOK 42 0x1A4,
      main_WaitForSingleObject = 0,
      main_WaitForSingleObject_LastError = 0,
      main_GetExitCodeProcess = ExitCode 7\<rparr>"

section \<open>The anatomy of a run\<close>


lemma monitor_step_events:
  "ev \<in> set (fst (monitor_step w root)) \<Longrightarrow>
     \<not> direct_process_event ev \<and> \<not> shell_dispatch_event ev \<and> \<not> report_event ev"
  by (auto simp: monitor_step_def LaunchMonitorInBackground_def Let_def
           split: option.splits if_splits shell_result.splits create_result.splits)

lemma direct_launch_events:
  "ev \<in> set (fst (direct_launch w exeName path cl dir cmdShow)) \<Longrightarrow>
     \<not> shell_dispatch_event ev \<and>
     (direct_process_event ev \<longrightarrow> ev = CreateProcessW (Some path) cl True dir (ucast cmdShow))"
  by (auto simp: direct_launch_def emit_def wait_switch_def
           split: sum.splits if_splits create_result.splits exit_result.splits)

lemma shell_launch_events:
  "ev \<in> set (fst (shell_launch w exeName root params dir cmdShow)) \<Longrightarrow>
     \<not> direct_process_event ev \<and>
     (shell_dispatch_event ev \<longrightarrow>
        ev = ShellExecuteEx SEE_MASK_NOCLOSEPROCESS None (path_append w root exeName) params dir (ucast cmdShow))"
  by (auto simp: shell_launch_def emit_def wait_switch_def Let_def
           split: sum.splits if_splits shell_result.splits)

lemma catch_all_emit:
  "catch_all w (emit es r) = (es @ fst (catch_all w r), snd (catch_all w r))"
  by (simp add: catch_all_def emit_def split: flow.splits)

lemma catch_all_events:
  "ev \<in> set (fst (catch_all w r)) \<Longrightarrow> \<not> report_event ev \<Longrightarrow> ev \<in> set (fst r)"
  by (cases r) (auto simp: catch_all_def split: flow.splits)

lemma launcher_main_reached:
  assumes "PSFQueryCurrentAppLaunchConfig w = Some cfg"
    and "app_executable cfg = Some exeName"
    and "snd (monitor_step w (PSFQueryPackageRootPath w))"
    and "working_directory_fixup w (PSFQueryPackageRootPath w) (exePath w exeName)
           (app_workingDirectory cfg) = Inr wd"
  shows "launcher_main w args cmdShow =
           (Log (TAB @ ''In Launcher_main()'') [] #
              fst (monitor_step w (PSFQueryPackageRootPath w)) @
              fst (catch_all w (launch w cfg exeName args cmdShow)),
            snd (catch_all w (launch w cfg exeName args cmdShow)))"
  using assms
  by (simp add: launcher_main_def launcher_body_def catch_all_emit Let_def)

lemma launcher_main_not_reached:
  assumes cfg: "PSFQueryCurrentAppLaunchConfig w = Some cfg"
    and exe: "app_executable cfg = Some exeName"
    and stop: "\<not> snd (monitor_step w (PSFQueryPackageRootPath w)) \<or>
         working_directory_fixup w (PSFQueryPackageRootPath w) (exePath w exeName)
           (app_workingDirectory cfg) = Inl e"
    and ev: "ev \<in> set (fst (launcher_main w args cmdShow))"
  shows "\<not> direct_process_event ev \<and> \<not> shell_dispatch_event ev"
proof -
  let ?m = "monitor_step w (PSFQueryPackageRootPath w)"
  let ?login = "Log (TAB @ ''In Launcher_main()'') []"
  from stop have "\<exists>r. launcher_body w args cmdShow = emit (?login # fst ?m) ([], r)"
  proof
    assume "\<not> snd ?m"
    then show ?thesis
      using cfg exe by (simp add: launcher_body_def emit_def Let_def)
  next
    assume "working_directory_fixup w (PSFQueryPackageRootPath w) (exePath w exeName)
           (app_workingDirectory cfg) = Inl e"
    then show ?thesis
      using cfg exe by (simp add: launcher_body_def emit_def Let_def)
  qed
  then obtain r where "launcher_body w args cmdShow = emit (?login # fst ?m) ([], r)" ..
  then have "ev = ?login \<or> ev \<in> set (fst ?m) \<or> report_event ev"
    using ev by (auto simp: launcher_main_def catch_all_def emit_def split: flow.splits)
  then show ?thesis
    using monitor_step_events [of ev w "PSFQueryPackageRootPath w"] by (cases ev) auto
qed

lemma launcher_main_no_config:
  assumes "PSFQueryCurrentAppLaunchConfig w = None"
  shows "launcher_main w args cmdShow =
           ([Log (TAB @ ''In Launcher_main()'') [],
             PSFReportError (widen (message_from_caught_exception w
               (win32_error ERROR_NOT_FOUND
                  ''Error: could not find matching appid in config.json and appx manifest'')))],
            Returned (win32_from_caught_exception w
               (win32_error ERROR_NOT_FOUND
                  ''Error: could not find matching appid in config.json and appx manifest'')))"
  using assms by (simp add: launcher_main_def launcher_body_def catch_all_def emit_def)

lemma launcher_main_no_executable:
  assumes "PSFQueryCurrentAppLaunchConfig w = Some cfg" and "app_executable cfg = None"
  shows "launcher_main w args cmdShow =
           ([Log (TAB @ ''In Launcher_main()'') [],
             PSFReportError (widen (message_from_caught_exception w (key_not_found ''executable'')))],
            Returned (win32_from_caught_exception w (key_not_found ''executable'')))"
  using assms by (simp add: launcher_main_def launcher_body_def catch_all_def emit_def)

text \<open>A main-launch event in the trace means that the launcher got as far as line 125.\<close>

lemma launch_event_reached:
  assumes cfg: "PSFQueryCurrentAppLaunchConfig w = Some cfg"
    and exe: "app_executable cfg = Some exeName"
    and ev: "ev \<in> set (fst (launcher_main w args cmdShow))"
    and kind: "direct_process_event ev \<or> shell_dispatch_event ev"
  shows "snd (monitor_step w (PSFQueryPackageRootPath w)) \<and>
         (\<exists>wd. working_directory_fixup w (PSFQueryPackageRootPath w) (exePath w exeName)
                  (app_workingDirectory cfg) = Inr wd)"
proof (rule ccontr)
  assume "\<not> ?thesis"
  then have "\<not> snd (monitor_step w (PSFQueryPackageRootPath w)) \<or>
     (\<exists>e. working_directory_fixup w (PSFQueryPackageRootPath w) (exePath w exeName)
             (app_workingDirectory cfg) = Inl e)"
    by (cases "working_directory_fixup w (PSFQueryPackageRootPath w) (exePath w exeName)
                 (app_workingDirectory cfg)") auto
  then show False
    using launcher_main_not_reached [OF cfg exe _ ev] kind by blast
qed

lemma launch_events:
  assumes "ev \<in> set (fst (launch w cfg exeName args cmdShow))"
  shows "(direct_process_event ev \<longrightarrow>
            check_suffix_if exeName ''.exe'' \<and>
            ev = CreateProcessW (Some (exePath w exeName)) (cmdLine w cfg exeName args) True
                   (directory_argument w cfg) (ucast cmdShow)) \<and>
         (shell_dispatch_event ev \<longrightarrow>
            \<not> check_suffix_if exeName ''.exe'' \<and>
            ev = ShellExecuteEx SEE_MASK_NOCLOSEPROCESS None (exePath w exeName)
                   (exeArgString cfg) (shell_directory_argument w cfg) (ucast cmdShow))"
  using assms direct_launch_events shell_launch_events
  by (auto simp: launch_def exePath_def split: if_splits)

text \<open>Every main-launch event of a run is the one call of the branch taken.\<close>

lemma main_launch_event:
  assumes cfg: "PSFQueryCurrentAppLaunchConfig w = Some cfg"
    and exe: "app_executable cfg = Some exeName"
    and ev: "ev \<in> set (fst (launcher_main w args cmdShow))"
    and kind: "direct_process_event ev \<or> shell_dispatch_event ev"
  shows "ev \<in> set (fst (launch w cfg exeName args cmdShow))"
proof -
  from launch_event_reached [OF cfg exe ev kind] obtain wd where
    m: "snd (monitor_step w (PSFQueryPackageRootPath w))" and
    wd: "working_directory_fixup w (PSFQueryPackageRootPath w) (exePath w exeName)
           (app_workingDirectory cfg) = Inr wd" by blast
  have nr: "\<not> report_event ev" using kind by (cases ev) auto
  have nl: "ev \<noteq> Log (TAB @ ''In Launcher_main()'') []" using kind by auto
  from ev have "ev \<in> set (fst (monitor_step w (PSFQueryPackageRootPath w))) \<or>
     ev \<in> set (fst (catch_all w (launch w cfg exeName args cmdShow)))"
    using nl unfolding launcher_main_reached [OF cfg exe m wd] by auto
  then show ?thesis
    using monitor_step_events [of ev w "PSFQueryPackageRootPath w"] kind
      catch_all_events [OF _ nr] by blast
qed



section \<open>Unfolding the model\<close>

lemmas kdefs = ERROR_INVALID_HANDLE_def ERROR_ELEVATION_REQUIRED_def ERROR_NOT_FOUND_def WAIT_OBJECT_0_def WAIT_FAILED_def INFINITE_def SEE_MASK_NOCLOSEPROCESS_def SEE_MASK_WAITFORINPUTIDLE_def COINIT_APARTMENTTHREADED_def COINIT_DISABLE_OLE1DDE_def

lemmas model = launcher_main_def launcher_body_def catch_all_def launch_def emit_def monitor_step_def
  LaunchMonitorInBackground_def working_directory_fixup_def resize_minus_def wait_switch_def
  direct_launch_def shell_launch_def check_suffix_if_def iequal_def to_lower_def widen_def
  exePath_def cmdLine_def exeArgString_def directory_argument_def shell_directory_argument_def
  win32_from_caught_exception_def Let_def

lemmas sample = sample_world_def sample_app_def sample_doc_def sample_monitor_def
  sample_append_def sample_filename_def sample_parent_path_def sample_what_def


section \<open>The claims\<close>

subsection \<open>C3: the launch mode\<close>



subsection \<open>C4: the command line\<close>

text \<open>
  C4. For every configuration and every trailing argument text of the host, the
  composed command line is the file name of the executable (not its full path) in
  double quotes, a space, the configured arguments (the empty string when absent), a
  space, and the host's arguments, in that order; it is what \<^verbatim>\<open>CreateProcessW\<close>
  receives for the main application.
\<close>

theorem command_line_composition:
  assumes cfg: "PSFQueryCurrentAppLaunchConfig w = Some cfg"
    and exe: "app_executable cfg = Some exeName"
    and ev: "ev \<in> set (fst (launcher_main w args cmdShow))"
    and kind: "direct_process_event ev"
  shows "cmdLine w cfg exeName args =
           DQ @ path_filename w (path_append w (PSFQueryPackageRootPath w) exeName) @ DQ @ '' '' @
           (case app_arguments cfg of None \<Rightarrow> [] | Some a \<Rightarrow> a) @ '' '' @ args \<and>
         (\<exists>app inh dir sw.
            ev = CreateProcessW app
                   (DQ @ path_filename w (path_append w (PSFQueryPackageRootPath w) exeName) @ DQ @
                    '' '' @ (case app_arguments cfg of None \<Rightarrow> [] | Some a \<Rightarrow> a) @ '' '' @ args)
                   inh dir sw)"
proof -
  have line: "cmdLine w cfg exeName args =
           DQ @ path_filename w (path_append w (PSFQueryPackageRootPath w) exeName) @ DQ @ '' '' @
           (case app_arguments cfg of None \<Rightarrow> [] | Some a \<Rightarrow> a) @ '' '' @ args"
    by (simp add: cmdLine_def exePath_def exeArgString_def split: option.splits)
  from kind have "direct_process_event ev \<or> shell_dispatch_event ev" ..
  from launch_events [OF main_launch_event [OF cfg exe ev this]] kind
  have "ev = CreateProcessW (Some (exePath w exeName)) (cmdLine w cfg exeName args) True
               (directory_argument w cfg) (ucast cmdShow)" by blast
  then show ?thesis unfolding line by blast
qed

text \<open>
  The scenario \<^verbatim>\<open>{executable: "app.exe", arguments: "--flag"}\<close> with host arguments
  \<^verbatim>\<open>x y\<close>.
\<close>

theorem command_line_composition_witness:
  "PSFQueryCurrentAppLaunchConfig sample_world = Some sample_app \<and>
   app_executable sample_app = Some ''app.exe'' \<and>
   app_arguments sample_app = Some ''--flag'' \<and>
   CreateProcessW (Some (''C:'' @ BSL @ ''pkg'' @ BSL @ ''app.exe''))
       (DQ @ ''app.exe'' @ DQ @ '' --flag x y'') True None 1
     \<in> set (fst (launcher_main sample_world ''x y'' 1)) \<and>
   cmdLine sample_world sample_app ''app.exe'' ''x y'' = DQ @ ''app.exe'' @ DQ @ '' --flag x y''"
proof -
  let ?ev = "CreateProcessW (Some (''C:'' @ BSL @ ''pkg'' @ BSL @ ''app.exe''))
       (DQ @ ''app.exe'' @ DQ @ '' --flag x y'') True None 1"
  have h1: "PSFQueryCurrentAppLaunchConfig sample_world = Some sample_app"
    by (simp add: sample_world_def)
  have h2: "app_executable sample_app = Some ''app.exe''"
    by (simp add: sample_app_def)
  have h3: "?ev \<in> set (fst (launcher_main sample_world ''x y'' 1))"
    by (simp add: model sample kdefs char_of_eq_iff)
  have h4: "direct_process_event ?ev" by simp
  have fn: "path_filename sample_world (path_append sample_world (PSFQueryPackageRootPath sample_world) ''app.exe'') = ''app.exe''"
    by (simp add: sample)
  have ar: "app_arguments sample_app = Some ''--flag''"
    by (simp add: sample_app_def)
  from command_line_composition [OF h1 h2 h3 h4] h1 h2 h3 ar
  show ?thesis by (simp add: fn)
qed

subsection \<open>C10: the directory argument of the two launch calls\<close>

text \<open>
  C10 says that the directory argument given to direct process creation and to shell
  dispatch is null when \<^verbatim>\<open>workingDirectory\<close> is absent and the unmodified join of the
  package root with the configured value otherwise. The code does so for
  \<^verbatim>\<open>CreateProcessW\<close> and not for \<^verbatim>\<open>ShellExecuteEx\<close>. For the document \<^verbatim>\<open>doc.txt\<close> with the
  working directory \<^verbatim>\<open>data\<close>, line 189 stores a pointer into a temporary path that is
  destroyed at the end of that statement, and the shell is called on line 194 with a
  dangling pointer where the join \<^verbatim>\<open>C:\pkg\data\<close> was; for the executable \<^verbatim>\<open>app.exe\<close>
  with the same working directory, line 141 passes the join.
\<close>

theorem shell_dispatch_directory_dangles:
  "launcher_main
     (sample_world\<lparr>PSFQueryCurrentAppLaunchConfig :=
        Some (sample_doc\<lparr>app_workingDirectory := Some ''data''\<rparr>)\<rparr>) [] 1 =
     ([Log (TAB @ ''In Launcher_main()'') [],
       CoInitializeEx 6,
       Log (TAB @ ''Using Shell launch: %ls %ls'') [ArgW (''C:'' @ BSL @ ''pkg'' @ BSL @ ''doc.txt''), ArgW []],
       ShellExecuteEx SEE_MASK_NOCLOSEPROCESS None (''C:'' @ BSL @ ''pkg'' @ BSL @ ''doc.txt'') []
         (Some (dangling (''C:'' @ BSL @ ''pkg'' @ BSL @ ''data''))) 1,
       WaitForSingleObject 0x1A4 INFINITE],
      Returned 0) \<and>
   launcher_main
     (sample_world\<lparr>PSFQueryCurrentAppLaunchConfig :=
        Some (sample_app\<lparr>app_workingDirectory := Some ''data''\<rparr>)\<rparr>) [] 1 =
     ([Log (TAB @ ''In Launcher_main()'') [],
       Log (TAB @ ''Creating process %ls'') [ArgW (DQ @ ''app.exe'' @ DQ @ '' --flag '')],
       CreateProcessW (Some (''C:'' @ BSL @ ''pkg'' @ BSL @ ''app.exe''))
         (DQ @ ''app.exe'' @ DQ @ '' --flag '') True (Some (''C:'' @ BSL @ ''pkg'' @ BSL @ ''data'')) 1,
       WaitForSingleObject 0x1A4 INFINITE,
       GetExitCodeProcess 0x1A4],
      Returned 7)"
  by (simp add: model sample kdefs char_of_eq_iff)

subsection \<open>C2: the default working directory\<close>

text \<open>
  C2 says that, when \<^verbatim>\<open>workingDirectory\<close> is omitted, the main application is launched
  in the parent directory of the executable. The code does not do so. For the
  executable \<^verbatim>\<open>app.exe\<close> under the package root \<^verbatim>\<open>C:\pkg\<close> the parent directory is
  \<^verbatim>\<open>C:\pkg\<close>; the fix-up of lines 107 to 115 computes the string \<^verbatim>\<open>"C:\pk"\<close>, having
  removed the last letter where its comment expects a trailing slash, and
  \<^verbatim>\<open>CreateProcessW\<close> is given a null directory.
\<close>

theorem default_working_directory_not_applied:
  "app_workingDirectory sample_app = None \<and>
   path_parent_path sample_world (exePath sample_world ''app.exe'') = ''C:'' @ BSL @ ''pkg'' \<and>
   working_directory_fixup sample_world (PSFQueryPackageRootPath sample_world)
       (exePath sample_world ''app.exe'') None = Inr (DQ @ ''C:'' @ BSL @ ''pk'' @ DQ) \<and>
   launcher_main sample_world ''x y'' 1 =
     ([Log (TAB @ ''In Launcher_main()'') [],
       Log (TAB @ ''Creating process %ls'') [ArgW (DQ @ ''app.exe'' @ DQ @ '' --flag x y'')],
       CreateProcessW (Some (''C:'' @ BSL @ ''pkg'' @ BSL @ ''app.exe''))
         (DQ @ ''app.exe'' @ DQ @ '' --flag x y'') True None 1,
       WaitForSingleObject 0x1A4 INFINITE,
       GetExitCodeProcess 0x1A4],
      Returned 7)"
  by (simp add: model sample kdefs char_of_eq_iff)

subsection \<open>The two branches\<close>

text \<open>What each branch does, by the answer of the call that starts the application.\<close>

lemma shell_launch_ok:
  assumes "main_ShellExecuteEx w = ShellOK hInstApp hProcess"
  shows "catch_all w (shell_launch w exeName root params dir cmdShow) =
           ([CoInitializeEx (COINIT_APARTMENTTHREADED OR COINIT_DISABLE_OLE1DDE),
             Log (TAB @ ''Using Shell launch: %ls %ls'') [ArgW (path_append w root exeName), ArgW params],
             ShellExecuteEx SEE_MASK_NOCLOSEPROCESS None (path_append w root exeName) params dir
               (ucast cmdShow),
             WaitForSingleObject hProcess INFINITE],
            Returned
              (if main_WaitForSingleObject w = WAIT_OBJECT_0
               then (if hInstApp > 32 then 0 else ucast hInstApp)
               else if main_WaitForSingleObject w = WAIT_FAILED
               then main_WaitForSingleObject_LastError w
               else ERROR_INVALID_HANDLE))"
  using assms
  by (simp add: shell_launch_def catch_all_def emit_def wait_switch_def Let_def)

lemma direct_launch_ok:
  assumes "main_CreateProcessW w = Created hProcess"
  shows "catch_all w (direct_launch w exeName path cl dir cmdShow) =
           ([Log (TAB @ ''Creating process %ls'') [ArgW cl],
             CreateProcessW (Some path) cl True dir (ucast cmdShow),
             WaitForSingleObject hProcess INFINITE] @
            (if main_WaitForSingleObject w = WAIT_OBJECT_0 then [GetExitCodeProcess hProcess]
             else []),
            Returned
              (if main_WaitForSingleObject w = WAIT_OBJECT_0
               then (case main_GetExitCodeProcess w of
                       ExitFailed err \<Rightarrow> err | ExitCode exitCode \<Rightarrow> exitCode)
               else if main_WaitForSingleObject w = WAIT_FAILED
               then main_WaitForSingleObject_LastError w
               else ERROR_INVALID_HANDLE))"
  using assms
  by (simp add: direct_launch_def catch_all_def emit_def wait_switch_def split: exit_result.splits)

lemma direct_launch_failed:
  assumes "main_CreateProcessW w = CreateFailed err"
  shows "catch_all w (direct_launch w exeName path cl dir cmdShow) =
           ([Log (TAB @ ''Creating process %ls'') [ArgW cl],
             CreateProcessW (Some path) cl True dir (ucast cmdShow),
             PSFReportError
               (if length (system_message w err) < 3
                then widen (message_from_caught_exception w length_error)
                else ''ERROR: Failed to create detoured process'' @ NL @ ''  Path: '' @ DQ @
                     exeName @ DQ @ NL @ ''  Error: '' @
                     take (length (system_message w err) - 3) (system_message w err) @
                     '' ('' @ decimal (unat err) @ '')'')],
            Returned (if length (system_message w err) < 3
                      then win32_from_caught_exception w length_error else err))"
  using assms
  by (simp add: direct_launch_def catch_all_def emit_def resize_minus_def widen_def)

lemma shell_launch_failed:
  assumes "main_ShellExecuteEx w = ShellFailed err"
  shows "catch_all w (shell_launch w exeName root params dir cmdShow) =
           ([CoInitializeEx (COINIT_APARTMENTTHREADED OR COINIT_DISABLE_OLE1DDE),
             Log (TAB @ ''Using Shell launch: %ls %ls'') [ArgW (path_append w root exeName), ArgW params],
             ShellExecuteEx SEE_MASK_NOCLOSEPROCESS None (path_append w root exeName) params dir
               (ucast cmdShow),
             PSFReportError
               (if length (system_message w err) < 3
                then widen (message_from_caught_exception w length_error)
                else ''ERROR: Failed to create detoured shell process'' @ NL @ ''  Path: '' @ DQ @
                     exeName @ DQ @ NL @ ''  Error: '' @
                     take (length (system_message w err) - 3) (system_message w err) @
                     '' ('' @ decimal (unat err) @ '')'')],
            Returned (if length (system_message w err) < 3
                      then win32_from_caught_exception w length_error else err))"
  using assms
  by (simp add: shell_launch_def catch_all_def emit_def resize_minus_def widen_def Let_def)

text \<open>A run in which the main application is started, cut into its three parts.\<close>

lemma run_of_launch:
  assumes cfg: "PSFQueryCurrentAppLaunchConfig w = Some cfg"
    and exe: "app_executable cfg = Some exeName"
    and ev: "ev \<in> set (fst (launcher_main w args cmdShow))"
    and kind: "direct_process_event ev \<or> shell_dispatch_event ev"
  shows "launcher_main w args cmdShow =
           (Log (TAB @ ''In Launcher_main()'') [] #
              fst (monitor_step w (PSFQueryPackageRootPath w)) @
              fst (catch_all w (launch w cfg exeName args cmdShow)),
            snd (catch_all w (launch w cfg exeName args cmdShow)))"
  using launch_event_reached [OF cfg exe ev kind] launcher_main_reached [OF cfg exe]
  by blast

lemma run_direct:
  assumes cfg: "PSFQueryCurrentAppLaunchConfig w = Some cfg"
    and exe: "app_executable cfg = Some exeName"
    and ev: "ev \<in> set (fst (launcher_main w args cmdShow))"
    and kind: "direct_process_event ev"
  shows "launch w cfg exeName args cmdShow =
           direct_launch w exeName (exePath w exeName) (cmdLine w cfg exeName args)
             (directory_argument w cfg) cmdShow"
proof -
  from kind have k: "direct_process_event ev \<or> shell_dispatch_event ev" ..
  from launch_events [OF main_launch_event [OF cfg exe ev k]] kind
  show ?thesis by (simp add: launch_def)
qed

lemma run_shell:
  assumes cfg: "PSFQueryCurrentAppLaunchConfig w = Some cfg"
    and exe: "app_executable cfg = Some exeName"
    and ev: "ev \<in> set (fst (launcher_main w args cmdShow))"
    and kind: "shell_dispatch_event ev"
  shows "launch w cfg exeName args cmdShow =
           shell_launch w exeName (PSFQueryPackageRootPath w) (exeArgString cfg)
             (shell_directory_argument w cfg) cmdShow"
proof -
  from kind have k: "direct_process_event ev \<or> shell_dispatch_event ev" ..
  from launch_events [OF main_launch_event [OF cfg exe ev k]] kind
  show ?thesis by (simp add: launch_def)
qed

lemma monitor_step_no_report:
  "\<not> list_ex report_event (fst (monitor_step w root))"
  using monitor_step_events [of _ w root] by (auto simp: list_ex_iff)

subsection \<open>C1: shell dispatch and the exit code\<close>

text \<open>
  C1 says that, when \<^verbatim>\<open>ShellExecuteEx\<close> succeeds with a status greater than 32, the
  launcher waits on the process handle and returns the exit code of the launched
  process. The code waits and returns 0. For the document \<^verbatim>\<open>doc.txt\<close>, the status 42 and a
  process that exits with the code 7, the wait is the last call of the run,
  \<^verbatim>\<open>GetExitCodeProcess\<close> is never called, and the value returned is 0, where the direct
  branch, run on \<^verbatim>\<open>app.exe\<close> in the same world, asks for the exit code and returns 7.
\<close>

theorem shell_dispatch_returns_zero_not_exit_code:
  "main_ShellExecuteEx (sample_world\<lparr>PSFQueryCurrentAppLaunchConfig := Some sample_doc\<rparr>)
     = ShellOK 42 0x1A4 \<and>
   main_GetExitCodeProcess (sample_world\<lparr>PSFQueryCurrentAppLaunchConfig := Some sample_doc\<rparr>)
     = ExitCode 7 \<and>
   launcher_main (sample_world\<lparr>PSFQueryCurrentAppLaunchConfig := Some sample_doc\<rparr>) [] 1 =
     ([Log (TAB @ ''In Launcher_main()'') [],
       CoInitializeEx 6,
       Log (TAB @ ''Using Shell launch: %ls %ls'') [ArgW (''C:'' @ BSL @ ''pkg'' @ BSL @ ''doc.txt''), ArgW []],
       ShellExecuteEx SEE_MASK_NOCLOSEPROCESS None (''C:'' @ BSL @ ''pkg'' @ BSL @ ''doc.txt'') [] None 1,
       WaitForSingleObject 0x1A4 INFINITE],
      Returned 0) \<and>
   launcher_main sample_world [] 1 =
     ([Log (TAB @ ''In Launcher_main()'') [],
       Log (TAB @ ''Creating process %ls'') [ArgW (DQ @ ''app.exe'' @ DQ @ '' --flag '')],
       CreateProcessW (Some (''C:'' @ BSL @ ''pkg'' @ BSL @ ''app.exe''))
         (DQ @ ''app.exe'' @ DQ @ '' --flag '') True None 1,
       WaitForSingleObject 0x1A4 INFINITE,
       GetExitCodeProcess 0x1A4],
      Returned 7)"
  by (simp add: model sample kdefs char_of_eq_iff)

subsection \<open>C5: which failures are reported\<close>

text \<open>
  C5, as amended. When the call that starts the main application fails, by direct
  process creation or by shell dispatch, a string is forwarded to the error reporter as
  the last action before the launcher returns; when the message of the operating system
  has at least three characters it is the formatted failure string (the executable
  name, the message without its last three characters, the error code in decimal) and
  the error code is returned. Once the application has been started nothing is
  reported: a failed wait returns the error of the wait, and an unexpected outcome of
  the wait returns the invalid-handle code.
\<close>

theorem launch_failures_are_reported:
  assumes cfg: "PSFQueryCurrentAppLaunchConfig w = Some cfg"
    and exe: "app_executable cfg = Some exeName"
    and ev: "ev \<in> set (fst (launcher_main w args cmdShow))"
    and kind: "direct_process_event ev \<or> shell_dispatch_event ev"
  shows "(direct_process_event ev \<longrightarrow> main_CreateProcessW w = CreateFailed err \<longrightarrow>
            report_event (last (fst (launcher_main w args cmdShow))) \<and>
            (3 \<le> length (system_message w err) \<longrightarrow>
               last (fst (launcher_main w args cmdShow)) =
                 PSFReportError
                   (''ERROR: Failed to create detoured process'' @ NL @ ''  Path: '' @ DQ @ exeName @
                    DQ @ NL @ ''  Error: '' @
                    take (length (system_message w err) - 3) (system_message w err) @
                    '' ('' @ decimal (unat err) @ '')'') \<and>
               snd (launcher_main w args cmdShow) = Returned err)) \<and>
         (shell_dispatch_event ev \<longrightarrow> main_ShellExecuteEx w = ShellFailed err \<longrightarrow>
            report_event (last (fst (launcher_main w args cmdShow))) \<and>
            (3 \<le> length (system_message w err) \<longrightarrow>
               last (fst (launcher_main w args cmdShow)) =
                 PSFReportError
                   (''ERROR: Failed to create detoured shell process'' @ NL @ ''  Path: '' @ DQ @
                    exeName @ DQ @ NL @ ''  Error: '' @
                    take (length (system_message w err) - 3) (system_message w err) @
                    '' ('' @ decimal (unat err) @ '')'') \<and>
               snd (launcher_main w args cmdShow) = Returned err)) \<and>
         (direct_process_event ev \<and> main_CreateProcessW w = Created hProcess \<or>
          shell_dispatch_event ev \<and> main_ShellExecuteEx w = ShellOK hInstApp hProcess \<longrightarrow>
            \<not> list_ex report_event (fst (launcher_main w args cmdShow)) \<and>
            (main_WaitForSingleObject w = WAIT_FAILED \<longrightarrow>
               snd (launcher_main w args cmdShow) = Returned (main_WaitForSingleObject_LastError w)) \<and>
            (main_WaitForSingleObject w \<noteq> WAIT_OBJECT_0 \<longrightarrow> main_WaitForSingleObject w \<noteq> WAIT_FAILED \<longrightarrow>
               snd (launcher_main w args cmdShow) = Returned ERROR_INVALID_HANDLE))"
    (is "?direct_failure \<and> ?shell_failure \<and> ?started")
proof -
  note run = run_of_launch [OF cfg exe ev kind]
  note nomon = monitor_step_no_report [of w "PSFQueryPackageRootPath w"]
  have a: ?direct_failure
  proof (intro impI)
    assume d: "direct_process_event ev" and f: "main_CreateProcessW w = CreateFailed err"
    show "report_event (last (fst (launcher_main w args cmdShow))) \<and>
            (3 \<le> length (system_message w err) \<longrightarrow>
               last (fst (launcher_main w args cmdShow)) =
                 PSFReportError
                   (''ERROR: Failed to create detoured process'' @ NL @ ''  Path: '' @ DQ @ exeName @
                    DQ @ NL @ ''  Error: '' @
                    take (length (system_message w err) - 3) (system_message w err) @
                    '' ('' @ decimal (unat err) @ '')'') \<and>
               snd (launcher_main w args cmdShow) = Returned err)"
      unfolding run run_direct [OF cfg exe ev d] direct_launch_failed [OF f]
      by (simp add: not_less)
  qed
  have b: ?shell_failure
  proof (intro impI)
    assume s: "shell_dispatch_event ev" and f: "main_ShellExecuteEx w = ShellFailed err"
    show "report_event (last (fst (launcher_main w args cmdShow))) \<and>
            (3 \<le> length (system_message w err) \<longrightarrow>
               last (fst (launcher_main w args cmdShow)) =
                 PSFReportError
                   (''ERROR: Failed to create detoured shell process'' @ NL @ ''  Path: '' @ DQ @
                    exeName @ DQ @ NL @ ''  Error: '' @
                    take (length (system_message w err) - 3) (system_message w err) @
                    '' ('' @ decimal (unat err) @ '')'') \<and>
               snd (launcher_main w args cmdShow) = Returned err)"
      unfolding run run_shell [OF cfg exe ev s] shell_launch_failed [OF f]
      by (simp add: not_less)
  qed
  have c: ?started
  proof (intro impI)
    assume "direct_process_event ev \<and> main_CreateProcessW w = Created hProcess \<or>
            shell_dispatch_event ev \<and> main_ShellExecuteEx w = ShellOK hInstApp hProcess"
    then show "\<not> list_ex report_event (fst (launcher_main w args cmdShow)) \<and>
            (main_WaitForSingleObject w = WAIT_FAILED \<longrightarrow>
               snd (launcher_main w args cmdShow) = Returned (main_WaitForSingleObject_LastError w)) \<and>
            (main_WaitForSingleObject w \<noteq> WAIT_OBJECT_0 \<longrightarrow> main_WaitForSingleObject w \<noteq> WAIT_FAILED \<longrightarrow>
               snd (launcher_main w args cmdShow) = Returned ERROR_INVALID_HANDLE)"
    proof (elim disjE conjE)
      assume d: "direct_process_event ev" and f: "main_CreateProcessW w = Created hProcess"
      show ?thesis
        using nomon unfolding run run_direct [OF cfg exe ev d] direct_launch_ok [OF f]
        by (auto simp: WAIT_OBJECT_0_def WAIT_FAILED_def)
    next
      assume s: "shell_dispatch_event ev" and f: "main_ShellExecuteEx w = ShellOK hInstApp hProcess"
      show ?thesis
        using nomon unfolding run run_shell [OF cfg exe ev s] shell_launch_ok [OF f]
        by (auto simp: WAIT_OBJECT_0_def WAIT_FAILED_def)
    qed
  qed
  from a b c show ?thesis by (intro conjI)
qed

text \<open>
  The scenario of the spec: direct process creation fails with the error 2, and the
  reported message ends in \<^verbatim>\<open>(2)\<close>.
\<close>

theorem launch_failures_are_reported_witness:
  "PSFQueryCurrentAppLaunchConfig (sample_world\<lparr>main_CreateProcessW := CreateFailed 2\<rparr>)
     = Some sample_app \<and>
   app_executable sample_app = Some ''app.exe'' \<and>
   CreateProcessW (Some (''C:'' @ BSL @ ''pkg'' @ BSL @ ''app.exe'')) (DQ @ ''app.exe'' @ DQ @ '' --flag '')
       True None 1
     \<in> set (fst (launcher_main (sample_world\<lparr>main_CreateProcessW := CreateFailed 2\<rparr>) [] 1)) \<and>
   main_CreateProcessW (sample_world\<lparr>main_CreateProcessW := CreateFailed 2\<rparr>) = CreateFailed 2 \<and>
   last (fst (launcher_main (sample_world\<lparr>main_CreateProcessW := CreateFailed 2\<rparr>) [] 1)) =
     PSFReportError
       (''ERROR: Failed to create detoured process'' @ NL @ ''  Path: '' @ DQ @ ''app.exe'' @ DQ @ NL @
        ''  Error: The system cannot find the file specified (2)'') \<and>
   snd (launcher_main (sample_world\<lparr>main_CreateProcessW := CreateFailed 2\<rparr>) [] 1) = Returned 2"
proof -
  let ?w = "sample_world\<lparr>main_CreateProcessW := CreateFailed 2\<rparr>"
  let ?ev = "CreateProcessW (Some (''C:'' @ BSL @ ''pkg'' @ BSL @ ''app.exe''))
               (DQ @ ''app.exe'' @ DQ @ '' --flag '') True None 1"
  have h1: "PSFQueryCurrentAppLaunchConfig ?w = Some sample_app" by (simp add: sample_world_def)
  have h2: "app_executable sample_app = Some ''app.exe''" by (simp add: sample_app_def)
  have h3: "?ev \<in> set (fst (launcher_main ?w [] 1))"
    by (simp add: model sample kdefs char_of_eq_iff)
  have h4: "direct_process_event ?ev \<or> shell_dispatch_event ?ev" by simp
  have h5: "main_CreateProcessW ?w = CreateFailed 2" by simp
  have msg: "system_message sample_world 2 = ''The system cannot find the file specified.'' @ [CHR 0x0D, CHR 0x0A]"
    by (simp add: sample_world_def)
  have dec: "decimal 2 = ''2''"
    by (simp add: decimal.simps char_of_eq_iff)
  from launch_failures_are_reported [OF h1 h2 h3 h4, of 2] h1 h2 h3 h5
  show ?thesis by (simp add: msg dec)
qed

text \<open>
  The process is created and the wait on it fails with the error 6: the launcher returns
  6 and has reported nothing.
\<close>

theorem wait_failure_not_reported_counterexample:
  "launcher_main
     (sample_world\<lparr>main_WaitForSingleObject := WAIT_FAILED,
        main_WaitForSingleObject_LastError := 6\<rparr>) ''x y'' 1 =
     ([Log (TAB @ ''In Launcher_main()'') [],
       Log (TAB @ ''Creating process %ls'') [ArgW (DQ @ ''app.exe'' @ DQ @ '' --flag x y'')],
       CreateProcessW (Some (''C:'' @ BSL @ ''pkg'' @ BSL @ ''app.exe''))
         (DQ @ ''app.exe'' @ DQ @ '' --flag x y'') True None 1,
       WaitForSingleObject 0x1A4 INFINITE],
      Returned 6) \<and>
   \<not> list_ex report_event
       (fst (launcher_main
          (sample_world\<lparr>main_WaitForSingleObject := WAIT_FAILED,
             main_WaitForSingleObject_LastError := 6\<rparr>) ''x y'' 1))"
  by (simp add: model sample kdefs char_of_eq_iff)

subsection \<open>The monitor and the main launch\<close>

text \<open>Nothing after line 105 reads the monitor's configuration.\<close>

lemma launch_ignores_monitor:
  "launch (w\<lparr>PSFQueryAppMonitorConfig := v\<rparr>) cfg exeName args cmdShow =
   launch w cfg exeName args cmdShow"
  by (simp add: launch_def direct_launch_def shell_launch_def wait_switch_def exePath_def
        cmdLine_def directory_argument_def shell_directory_argument_def
      cong: if_cong option.case_cong create_result.case_cong shell_result.case_cong
        exit_result.case_cong sum.case_cong)

lemma fixup_ignores_monitor:
  "working_directory_fixup (w\<lparr>PSFQueryAppMonitorConfig := v\<rparr>) root path dirStr =
   working_directory_fixup w root path dirStr"
  by (simp add: working_directory_fixup_def cong: option.case_cong)

lemma catch_all_ignores_monitor:
  "catch_all (w\<lparr>PSFQueryAppMonitorConfig := v\<rparr>) r = catch_all w r"
  by (simp add: catch_all_def win32_from_caught_exception_def cong: flow.case_cong exn.case_cong)

lemma monitor_isolated:
  assumes cfg: "PSFQueryCurrentAppLaunchConfig w = Some cfg"
    and exe: "app_executable cfg = Some exeName"
    and m: "snd (monitor_step w (PSFQueryPackageRootPath w))"
  shows "launcher_main w args cmdShow =
           (Log (TAB @ ''In Launcher_main()'') [] #
              fst (monitor_step w (PSFQueryPackageRootPath w)) @
              tl (fst (launcher_main (w\<lparr>PSFQueryAppMonitorConfig := None\<rparr>) args cmdShow)),
            snd (launcher_main (w\<lparr>PSFQueryAppMonitorConfig := None\<rparr>) args cmdShow))"
proof -
  let ?w0 = "w\<lparr>PSFQueryAppMonitorConfig := None\<rparr>"
  let ?rest = "case working_directory_fixup w (PSFQueryPackageRootPath w) (exePath w exeName)
                      (app_workingDirectory cfg) of
                 Inl e \<Rightarrow> ([], Throw e)
               | Inr wd \<Rightarrow> launch w cfg exeName args cmdShow"
  have with_monitor: "launcher_body w args cmdShow =
      emit (Log (TAB @ ''In Launcher_main()'') [] # fst (monitor_step w (PSFQueryPackageRootPath w))) ?rest"
    using cfg exe m by (simp add: launcher_body_def emit_def Let_def)
  have without: "launcher_body ?w0 args cmdShow = emit [Log (TAB @ ''In Launcher_main()'') []] ?rest"
    using cfg exe
    by (simp add: launcher_body_def emit_def Let_def monitor_step_def launch_ignores_monitor
          fixup_ignores_monitor exePath_def cong: sum.case_cong)
  show ?thesis
    by (simp add: launcher_main_def with_monitor without catch_all_emit catch_all_ignores_monitor)
qed

lemma monitor_step_present:
  assumes "PSFQueryAppMonitorConfig w = Some m"
    and "mon_executable m = Some mexe"
    and "mon_arguments m = Some margs"
  shows "monitor_step w root =
           (Log (TAB @ ''Creating the monitor: %ls'') [ArgW mexe] #
            LaunchMonitorInBackground w root mexe margs
              (mon_wait m = Some True) (mon_asadmin m = Some True), True)"
proof -
  have "(case mon_wait m of Some b \<Rightarrow> b | None \<Rightarrow> False) = (mon_wait m = Some True)"
    by (cases "mon_wait m") auto
  moreover have "(case mon_asadmin m of Some b \<Rightarrow> b | None \<Rightarrow> False) = (mon_asadmin m = Some True)"
    by (cases "mon_asadmin m") auto
  ultimately show ?thesis
    using assms by (simp add: monitor_step_def Let_def)
qed

subsection \<open>C6: a failing monitor\<close>

text \<open>
  C6, as amended. For every launch where a monitor is configured and its launch is
  attempted (its executable and its arguments are present), the value returned to the
  host is the one returned with no monitor configured, and the trace is the trace with
  no monitor configured with the monitor's events inserted after the first log line, so
  that the main launch (mode, directory argument, command line, exit code) is the same.
  When \<^verbatim>\<open>asadmin\<close> is not set and process creation fails, the monitor's events end in one
  log line, which for the elevation-required error asks for \<^verbatim>\<open>monitor/asadmin\<close>; when
  \<^verbatim>\<open>asadmin\<close> is set and the elevated launch fails, the failure is ignored and nothing is
  logged.
\<close>

theorem monitor_failure_isolated:
  assumes cfg: "PSFQueryCurrentAppLaunchConfig w = Some cfg"
    and exe: "app_executable cfg = Some exeName"
    and mon: "PSFQueryAppMonitorConfig w = Some m"
    and me: "mon_executable m = Some mexe"
    and ma: "mon_arguments m = Some margs"
  shows "snd (launcher_main w args cmdShow) =
           snd (launcher_main (w\<lparr>PSFQueryAppMonitorConfig := None\<rparr>) args cmdShow) \<and>
         (mon_asadmin m = Some True \<longrightarrow> monitor_ShellExecuteEx w = ShellFailed err \<longrightarrow>
            fst (launcher_main w args cmdShow) =
              [Log (TAB @ ''In Launcher_main()'') [],
               Log (TAB @ ''Creating the monitor: %ls'') [ArgW mexe],
               ShellExecuteEx
                 (if mon_wait m = Some True then SEE_MASK_NOCLOSEPROCESS
                  else SEE_MASK_NOCLOSEPROCESS OR SEE_MASK_WAITFORINPUTIDLE)
                 (Some ''runas'') (DQ @ path_append w (PSFQueryPackageRootPath w) mexe @ DQ) margs None 1] @
              tl (fst (launcher_main (w\<lparr>PSFQueryAppMonitorConfig := None\<rparr>) args cmdShow))) \<and>
         (mon_asadmin m \<noteq> Some True \<longrightarrow> monitor_CreateProcessW w = CreateFailed err \<longrightarrow>
            fst (launcher_main w args cmdShow) =
              [Log (TAB @ ''In Launcher_main()'') [],
               Log (TAB @ ''Creating the monitor: %ls'') [ArgW mexe],
               CreateProcessW None
                 (DQ @ path_append w (PSFQueryPackageRootPath w) mexe @ DQ @ '' '' @ margs) True None 1,
               (if err = ERROR_ELEVATION_REQUIRED
                then Log (''error starting monitor using CreateProcessW. You must specify 'monitor/asadmin' in config.json'' @ NL) []
                else Log (''error starting monitor using CreateProcessW. Error=0x%x'' @ NL) [ArgX err])] @
              tl (fst (launcher_main (w\<lparr>PSFQueryAppMonitorConfig := None\<rparr>) args cmdShow)))"
    (is "?code \<and> ?elevated \<and> ?plain")
proof -
  note step = monitor_step_present [OF mon me ma, of "PSFQueryPackageRootPath w"]
  have m: "snd (monitor_step w (PSFQueryPackageRootPath w))" by (simp add: step)
  note run = monitor_isolated [OF cfg exe m]
  have a: ?code by (simp add: run)
  have b: ?elevated
    unfolding run by (simp add: step LaunchMonitorInBackground_def Let_def)
  have c: ?plain
    unfolding run by (simp add: step LaunchMonitorInBackground_def Let_def)
  from a b c show ?thesis by (intro conjI)
qed

text \<open>
  A monitor that needs elevation, configured without \<^verbatim>\<open>asadmin\<close>: the failure is logged
  and the main application runs as it does without a monitor.
\<close>

theorem monitor_failure_isolated_witness:
  "PSFQueryCurrentAppLaunchConfig
     (sample_world\<lparr>PSFQueryAppMonitorConfig := Some (sample_monitor\<lparr>mon_asadmin := None\<rparr>),
        monitor_CreateProcessW := CreateFailed 740\<rparr>) = Some sample_app \<and>
   app_executable sample_app = Some ''app.exe'' \<and>
   PSFQueryAppMonitorConfig
     (sample_world\<lparr>PSFQueryAppMonitorConfig := Some (sample_monitor\<lparr>mon_asadmin := None\<rparr>),
        monitor_CreateProcessW := CreateFailed 740\<rparr>) = Some (sample_monitor\<lparr>mon_asadmin := None\<rparr>) \<and>
   mon_executable (sample_monitor\<lparr>mon_asadmin := None\<rparr>) = Some ''mon.exe'' \<and>
   mon_arguments (sample_monitor\<lparr>mon_asadmin := None\<rparr>) = Some ''-v'' \<and>
   mon_asadmin (sample_monitor\<lparr>mon_asadmin := None\<rparr>) \<noteq> Some True \<and>
   monitor_CreateProcessW
     (sample_world\<lparr>PSFQueryAppMonitorConfig := Some (sample_monitor\<lparr>mon_asadmin := None\<rparr>),
        monitor_CreateProcessW := CreateFailed 740\<rparr>) = CreateFailed 740 \<and>
   fst (launcher_main
     (sample_world\<lparr>PSFQueryAppMonitorConfig := Some (sample_monitor\<lparr>mon_asadmin := None\<rparr>),
        monitor_CreateProcessW := CreateFailed 740\<rparr>) [] 1) =
     [Log (TAB @ ''In Launcher_main()'') [],
      Log (TAB @ ''Creating the monitor: %ls'') [ArgW ''mon.exe''],
      CreateProcessW None (DQ @ ''C:'' @ BSL @ ''pkg'' @ BSL @ ''mon.exe'' @ DQ @ '' -v'') True None 1,
      Log (''error starting monitor using CreateProcessW. You must specify 'monitor/asadmin' in config.json'' @ NL) [],
      Log (TAB @ ''Creating process %ls'') [ArgW (DQ @ ''app.exe'' @ DQ @ '' --flag '')],
      CreateProcessW (Some (''C:'' @ BSL @ ''pkg'' @ BSL @ ''app.exe''))
        (DQ @ ''app.exe'' @ DQ @ '' --flag '') True None 1,
      WaitForSingleObject 0x1A4 INFINITE,
      GetExitCodeProcess 0x1A4] \<and>
   snd (launcher_main
     (sample_world\<lparr>PSFQueryAppMonitorConfig := Some (sample_monitor\<lparr>mon_asadmin := None\<rparr>),
        monitor_CreateProcessW := CreateFailed 740\<rparr>) [] 1) = Returned 7"
proof -
  let ?m = "sample_monitor\<lparr>mon_asadmin := None\<rparr>"
  let ?w = "sample_world\<lparr>PSFQueryAppMonitorConfig := Some ?m,
              monitor_CreateProcessW := CreateFailed 740\<rparr>"
  have h1: "PSFQueryCurrentAppLaunchConfig ?w = Some sample_app" by (simp add: sample_world_def)
  have h2: "app_executable sample_app = Some ''app.exe''" by (simp add: sample_app_def)
  have h3: "PSFQueryAppMonitorConfig ?w = Some ?m" by simp
  have h4: "mon_executable ?m = Some ''mon.exe''" by (simp add: sample_monitor_def)
  have h5: "mon_arguments ?m = Some ''-v''" by (simp add: sample_monitor_def)
  have h6: "mon_asadmin ?m \<noteq> Some True" by simp
  have h7: "monitor_CreateProcessW ?w = CreateFailed 740" by simp
  have without: "launcher_main (?w\<lparr>PSFQueryAppMonitorConfig := None\<rparr>) [] 1 =
     ([Log (TAB @ ''In Launcher_main()'') [],
       Log (TAB @ ''Creating process %ls'') [ArgW (DQ @ ''app.exe'' @ DQ @ '' --flag '')],
       CreateProcessW (Some (''C:'' @ BSL @ ''pkg'' @ BSL @ ''app.exe''))
         (DQ @ ''app.exe'' @ DQ @ '' --flag '') True None 1,
       WaitForSingleObject 0x1A4 INFINITE,
       GetExitCodeProcess 0x1A4],
      Returned 7)"
    by (simp add: model sample kdefs char_of_eq_iff)
  have root: "path_append ?w (PSFQueryPackageRootPath ?w) ''mon.exe'' = ''C:'' @ BSL @ ''pkg'' @ BSL @ ''mon.exe''"
    by (simp add: sample_world_def sample_append_def)
  from monitor_failure_isolated [OF h1 h2 h3 h4 h5, of "[]" 1 740] h6 h7
  have "fst (launcher_main ?w [] 1) =
     [Log (TAB @ ''In Launcher_main()'') [],
      Log (TAB @ ''Creating the monitor: %ls'') [ArgW ''mon.exe''],
      CreateProcessW None (DQ @ ''C:'' @ BSL @ ''pkg'' @ BSL @ ''mon.exe'' @ DQ @ '' -v'') True None 1,
      Log (''error starting monitor using CreateProcessW. You must specify 'monitor/asadmin' in config.json'' @ NL) [],
      Log (TAB @ ''Creating process %ls'') [ArgW (DQ @ ''app.exe'' @ DQ @ '' --flag '')],
      CreateProcessW (Some (''C:'' @ BSL @ ''pkg'' @ BSL @ ''app.exe''))
        (DQ @ ''app.exe'' @ DQ @ '' --flag '') True None 1,
      WaitForSingleObject 0x1A4 INFINITE,
      GetExitCodeProcess 0x1A4]"
    and "snd (launcher_main ?w [] 1) = Returned 7"
    unfolding without root by (simp_all add: ERROR_ELEVATION_REQUIRED_def)
  with h1 h2 h3 h4 h5 h6 h7 show ?thesis by (intro conjI)
qed

text \<open>
  An elevated monitor whose launch fails (the error 1223, the elevation was declined):
  between the attempt and the launch of the main application nothing is logged.
\<close>

theorem elevated_monitor_failure_not_logged_counterexample:
  "launcher_main
     (sample_world\<lparr>PSFQueryAppMonitorConfig := Some sample_monitor,
        monitor_ShellExecuteEx := ShellFailed 1223\<rparr>) [] 1 =
     ([Log (TAB @ ''In Launcher_main()'') [],
       Log (TAB @ ''Creating the monitor: %ls'') [ArgW ''mon.exe''],
       ShellExecuteEx (SEE_MASK_NOCLOSEPROCESS OR SEE_MASK_WAITFORINPUTIDLE) (Some ''runas'')
         (DQ @ ''C:'' @ BSL @ ''pkg'' @ BSL @ ''mon.exe'' @ DQ) ''-v'' None 1,
       Log (TAB @ ''Creating process %ls'') [ArgW (DQ @ ''app.exe'' @ DQ @ '' --flag '')],
       CreateProcessW (Some (''C:'' @ BSL @ ''pkg'' @ BSL @ ''app.exe''))
         (DQ @ ''app.exe'' @ DQ @ '' --flag '') True None 1,
       WaitForSingleObject 0x1A4 INFINITE,
       GetExitCodeProcess 0x1A4],
      Returned 7)"
  by (simp add: model sample kdefs char_of_eq_iff)

subsection \<open>C7: the elevated monitor that is not waited for\<close>

text \<open>
  C7. For every monitor configured with \<^verbatim>\<open>asadmin\<close> true and \<^verbatim>\<open>wait\<close> false or absent whose
  elevated launch succeeds, the launcher calls \<^verbatim>\<open>WaitForInputIdle\<close> on the monitor with a
  bound of 1000 milliseconds, then \<^verbatim>\<open>Sleep\<close> with 5000 milliseconds, whatever the first
  call answered, and only then goes on to the main application: the five events of the
  monitor step come first in the trace, none of them starts the main application, and
  what follows is the run with no monitor configured.
\<close>

theorem elevated_monitor_grace_period:
  assumes cfg: "PSFQueryCurrentAppLaunchConfig w = Some cfg"
    and exe: "app_executable cfg = Some exeName"
    and mon: "PSFQueryAppMonitorConfig w = Some m"
    and me: "mon_executable m = Some mexe"
    and ma: "mon_arguments m = Some margs"
    and adm: "mon_asadmin m = Some True"
    and nw: "mon_wait m \<noteq> Some True"
    and ok: "monitor_ShellExecuteEx w = ShellOK hInstApp hProcess"
  shows "fst (launcher_main w args cmdShow) =
           [Log (TAB @ ''In Launcher_main()'') [],
            Log (TAB @ ''Creating the monitor: %ls'') [ArgW mexe],
            ShellExecuteEx (SEE_MASK_NOCLOSEPROCESS OR SEE_MASK_WAITFORINPUTIDLE) (Some ''runas'')
              (DQ @ path_append w (PSFQueryPackageRootPath w) mexe @ DQ) margs None 1,
            WaitForInputIdle hProcess 1000,
            Sleep 5000] @
           tl (fst (launcher_main (w\<lparr>PSFQueryAppMonitorConfig := None\<rparr>) args cmdShow)) \<and>
         snd (launcher_main w args cmdShow) =
           snd (launcher_main (w\<lparr>PSFQueryAppMonitorConfig := None\<rparr>) args cmdShow) \<and>
         \<not> list_ex (\<lambda>ev. direct_process_event ev \<or> shell_dispatch_event ev)
             (take 5 (fst (launcher_main w args cmdShow)))"
proof -
  have step: "monitor_step w (PSFQueryPackageRootPath w) =
      ([Log (TAB @ ''Creating the monitor: %ls'') [ArgW mexe],
        ShellExecuteEx (SEE_MASK_NOCLOSEPROCESS OR SEE_MASK_WAITFORINPUTIDLE) (Some ''runas'')
          (DQ @ path_append w (PSFQueryPackageRootPath w) mexe @ DQ) margs None 1,
        WaitForInputIdle hProcess 1000,
        Sleep 5000], True)"
    using adm nw ok
    by (simp add: monitor_step_present [OF mon me ma] LaunchMonitorInBackground_def Let_def)
  have m: "snd (monitor_step w (PSFQueryPackageRootPath w))" by (simp add: step)
  show ?thesis
    unfolding monitor_isolated [OF cfg exe m] by (simp add: step)
qed

text \<open>The scenario \<^verbatim>\<open>monitor: {executable: "mon.exe", asadmin: true, wait: false}\<close>.\<close>

theorem elevated_monitor_grace_period_witness:
  "PSFQueryCurrentAppLaunchConfig (sample_world\<lparr>PSFQueryAppMonitorConfig := Some sample_monitor\<rparr>)
     = Some sample_app \<and>
   app_executable sample_app = Some ''app.exe'' \<and>
   PSFQueryAppMonitorConfig (sample_world\<lparr>PSFQueryAppMonitorConfig := Some sample_monitor\<rparr>)
     = Some sample_monitor \<and>
   mon_executable sample_monitor = Some ''mon.exe'' \<and>
   mon_arguments sample_monitor = Some ''-v'' \<and>
   mon_asadmin sample_monitor = Some True \<and>
   mon_wait sample_monitor \<noteq> Some True \<and>
   monitor_ShellExecuteEx (sample_world\<lparr>PSFQueryAppMonitorConfig := Some sample_monitor\<rparr>)
     = ShellOK 42 0x2B0 \<and>
   fst (launcher_main (sample_world\<lparr>PSFQueryAppMonitorConfig := Some sample_monitor\<rparr>) [] 1) =
     [Log (TAB @ ''In Launcher_main()'') [],
      Log (TAB @ ''Creating the monitor: %ls'') [ArgW ''mon.exe''],
      ShellExecuteEx (SEE_MASK_NOCLOSEPROCESS OR SEE_MASK_WAITFORINPUTIDLE) (Some ''runas'')
        (DQ @ ''C:'' @ BSL @ ''pkg'' @ BSL @ ''mon.exe'' @ DQ) ''-v'' None 1,
      WaitForInputIdle 0x2B0 1000,
      Sleep 5000,
      Log (TAB @ ''Creating process %ls'') [ArgW (DQ @ ''app.exe'' @ DQ @ '' --flag '')],
      CreateProcessW (Some (''C:'' @ BSL @ ''pkg'' @ BSL @ ''app.exe''))
        (DQ @ ''app.exe'' @ DQ @ '' --flag '') True None 1,
      WaitForSingleObject 0x1A4 INFINITE,
      GetExitCodeProcess 0x1A4]"
proof -
  let ?w = "sample_world\<lparr>PSFQueryAppMonitorConfig := Some sample_monitor\<rparr>"
  have h1: "PSFQueryCurrentAppLaunchConfig ?w = Some sample_app" by (simp add: sample_world_def)
  have h2: "app_executable sample_app = Some ''app.exe''" by (simp add: sample_app_def)
  have h3: "PSFQueryAppMonitorConfig ?w = Some sample_monitor" by simp
  have h4: "mon_executable sample_monitor = Some ''mon.exe''" by (simp add: sample_monitor_def)
  have h5: "mon_arguments sample_monitor = Some ''-v''" by (simp add: sample_monitor_def)
  have h6: "mon_asadmin sample_monitor = Some True" by (simp add: sample_monitor_def)
  have h7: "mon_wait sample_monitor \<noteq> Some True" by (simp add: sample_monitor_def)
  have h8: "monitor_ShellExecuteEx ?w = ShellOK 42 0x2B0" by (simp add: sample_world_def)
  have without: "launcher_main (?w\<lparr>PSFQueryAppMonitorConfig := None\<rparr>) [] 1 =
     ([Log (TAB @ ''In Launcher_main()'') [],
       Log (TAB @ ''Creating process %ls'') [ArgW (DQ @ ''app.exe'' @ DQ @ '' --flag '')],
       CreateProcessW (Some (''C:'' @ BSL @ ''pkg'' @ BSL @ ''app.exe''))
         (DQ @ ''app.exe'' @ DQ @ '' --flag '') True None 1,
       WaitForSingleObject 0x1A4 INFINITE,
       GetExitCodeProcess 0x1A4],
      Returned 7)"
    by (simp add: model sample kdefs char_of_eq_iff)
  have root: "path_append ?w (PSFQueryPackageRootPath ?w) ''mon.exe'' = ''C:'' @ BSL @ ''pkg'' @ BSL @ ''mon.exe''"
    by (simp add: sample_world_def sample_append_def)
  from elevated_monitor_grace_period [OF h1 h2 h3 h4 h5 h6 h7 h8, of "[]" 1]
  have "fst (launcher_main ?w [] 1) =
     [Log (TAB @ ''In Launcher_main()'') [],
      Log (TAB @ ''Creating the monitor: %ls'') [ArgW ''mon.exe''],
      ShellExecuteEx (SEE_MASK_NOCLOSEPROCESS OR SEE_MASK_WAITFORINPUTIDLE) (Some ''runas'')
        (DQ @ ''C:'' @ BSL @ ''pkg'' @ BSL @ ''mon.exe'' @ DQ) ''-v'' None 1,
      WaitForInputIdle 0x2B0 1000,
      Sleep 5000,
      Log (TAB @ ''Creating process %ls'') [ArgW (DQ @ ''app.exe'' @ DQ @ '' --flag '')],
      CreateProcessW (Some (''C:'' @ BSL @ ''pkg'' @ BSL @ ''app.exe''))
        (DQ @ ''app.exe'' @ DQ @ '' --flag '') True None 1,
      WaitForSingleObject 0x1A4 INFINITE,
      GetExitCodeProcess 0x1A4]"
    unfolding without root by simp
  with h1 h2 h3 h4 h5 h6 h7 h8 show ?thesis by (intro conjI)
qed

subsection \<open>C8: a missing configuration\<close>

text \<open>
  C8, as amended. For every configuration that is missing, or whose \<^verbatim>\<open>executable\<close> field
  is missing, the launcher fails with a configuration error that maps to the "not
  found" code of the operating system: the handler at the entry point reports the
  message of the exception and returns \<^verbatim>\<open>ERROR_NOT_FOUND\<close>, and no process is launched,
  neither the monitor nor the main application.
\<close>

theorem missing_configuration_is_not_found:
  shows "(PSFQueryCurrentAppLaunchConfig w = None \<longrightarrow>
            launcher_main w args cmdShow =
              ([Log (TAB @ ''In Launcher_main()'') [],
                PSFReportError (widen (message_from_caught_exception w
                  (win32_error ERROR_NOT_FOUND
                     ''Error: could not find matching appid in config.json and appx manifest'')))],
               Returned ERROR_NOT_FOUND)) \<and>
         (PSFQueryCurrentAppLaunchConfig w = Some cfg \<longrightarrow> app_executable cfg = None \<longrightarrow>
            launcher_main w args cmdShow =
              ([Log (TAB @ ''In Launcher_main()'') [],
                PSFReportError (widen (message_from_caught_exception w (key_not_found ''executable'')))],
               Returned ERROR_NOT_FOUND)) \<and>
         (PSFQueryCurrentAppLaunchConfig w = None \<or>
          PSFQueryCurrentAppLaunchConfig w = Some cfg \<and> app_executable cfg = None \<longrightarrow>
            \<not> list_ex launch_event (fst (launcher_main w args cmdShow))) \<and>
         ERROR_NOT_FOUND = 1168"
  using launcher_main_no_config [of w args cmdShow]
    launcher_main_no_executable [of w cfg args cmdShow]
  by (auto simp: win32_from_caught_exception_def ERROR_NOT_FOUND_def)

theorem missing_configuration_is_not_found_witness:
  "PSFQueryCurrentAppLaunchConfig (sample_world\<lparr>PSFQueryCurrentAppLaunchConfig := None\<rparr>) = None \<and>
   launcher_main (sample_world\<lparr>PSFQueryCurrentAppLaunchConfig := None\<rparr>) [] 1 =
     ([Log (TAB @ ''In Launcher_main()'') [],
       PSFReportError ''Error: could not find matching appid in config.json and appx manifest''],
      Returned 1168) \<and>
   PSFQueryCurrentAppLaunchConfig
     (sample_world\<lparr>PSFQueryCurrentAppLaunchConfig := Some (sample_app\<lparr>app_executable := None\<rparr>)\<rparr>)
     = Some (sample_app\<lparr>app_executable := None\<rparr>) \<and>
   app_executable (sample_app\<lparr>app_executable := None\<rparr>) = None \<and>
   launcher_main
     (sample_world\<lparr>PSFQueryCurrentAppLaunchConfig := Some (sample_app\<lparr>app_executable := None\<rparr>)\<rparr>)
     [] 1 =
     ([Log (TAB @ ''In Launcher_main()'') [], PSFReportError ''executable''], Returned 1168)"
proof -
  let ?w = "sample_world\<lparr>PSFQueryCurrentAppLaunchConfig := None\<rparr>"
  let ?c = "sample_app\<lparr>app_executable := None\<rparr>"
  let ?v = "sample_world\<lparr>PSFQueryCurrentAppLaunchConfig := Some ?c\<rparr>"
  have h1: "PSFQueryCurrentAppLaunchConfig ?w = None" by simp
  have h2: "PSFQueryCurrentAppLaunchConfig ?v = Some ?c" by simp
  have h3: "app_executable ?c = None" by simp
  have what: "message_from_caught_exception ?w = sample_what"
    "message_from_caught_exception ?v = sample_what"
    by (simp_all add: sample_world_def)
  from missing_configuration_is_not_found [where w = ?w and args = "[]" and cmdShow = 1] h1
  have a: "launcher_main ?w [] 1 =
     ([Log (TAB @ ''In Launcher_main()'') [],
       PSFReportError ''Error: could not find matching appid in config.json and appx manifest''],
      Returned 1168)"
    by (simp add: what sample_what_def widen_def)
  from missing_configuration_is_not_found [where w = ?v and cfg = ?c and args = "[]" and cmdShow = 1]
    h2 h3
  have b: "launcher_main ?v [] 1 =
     ([Log (TAB @ ''In Launcher_main()'') [], PSFReportError ''executable''], Returned 1168)"
    by (simp add: what sample_what_def widen_def)
  from h1 a h2 h3 b show ?thesis by (intro conjI)
qed

text \<open>
  An executable that is present and empty is not refused: the package root itself goes
  to the shell.
\<close>

theorem empty_executable_is_launched_counterexample:
  "launcher_main
     (sample_world\<lparr>PSFQueryCurrentAppLaunchConfig := Some (sample_doc\<lparr>app_executable := Some []\<rparr>)\<rparr>)
     [] 1 =
     ([Log (TAB @ ''In Launcher_main()'') [],
       CoInitializeEx 6,
       Log (TAB @ ''Using Shell launch: %ls %ls'') [ArgW (''C:'' @ BSL @ ''pkg'' @ BSL), ArgW []],
       ShellExecuteEx SEE_MASK_NOCLOSEPROCESS None (''C:'' @ BSL @ ''pkg'' @ BSL) [] None 1,
       WaitForSingleObject 0x1A4 INFINITE],
      Returned 0)"
  by (simp add: model sample kdefs char_of_eq_iff)

subsection \<open>C9: the monitor's fields are used without a test\<close>

text \<open>
  C9. For every launch where a monitor is configured, its \<^verbatim>\<open>executable\<close> and \<^verbatim>\<open>arguments\<close>
  fields are dereferenced before the monitor is launched, whether they are present or
  not: when either is absent the run ends in a null-pointer dereference, and neither
  the monitor nor the main application is launched. With \<^verbatim>\<open>executable\<close> present and
  \<^verbatim>\<open>arguments\<close> absent, the log line that names the monitor is the last event.
\<close>

theorem monitor_fields_dereferenced_unguarded:
  assumes cfg: "PSFQueryCurrentAppLaunchConfig w = Some cfg"
    and exe: "app_executable cfg = Some exeName"
    and mon: "PSFQueryAppMonitorConfig w = Some m"
    and absent: "mon_executable m = None \<or> mon_arguments m = None"
  shows "launcher_main w args cmdShow =
           (Log (TAB @ ''In Launcher_main()'') [] #
            (case mon_executable m of
               None \<Rightarrow> []
             | Some mexe \<Rightarrow> [Log (TAB @ ''Creating the monitor: %ls'') [ArgW mexe]]),
            Crashed) \<and>
         \<not> list_ex launch_event (fst (launcher_main w args cmdShow))"
  using cfg exe mon absent
  by (auto simp: launcher_main_def launcher_body_def catch_all_def emit_def monitor_step_def Let_def
        split: option.splits)

theorem monitor_fields_dereferenced_unguarded_witness:
  "PSFQueryCurrentAppLaunchConfig
     (sample_world\<lparr>PSFQueryAppMonitorConfig := Some (sample_monitor\<lparr>mon_arguments := None\<rparr>)\<rparr>)
     = Some sample_app \<and>
   app_executable sample_app = Some ''app.exe'' \<and>
   PSFQueryAppMonitorConfig
     (sample_world\<lparr>PSFQueryAppMonitorConfig := Some (sample_monitor\<lparr>mon_arguments := None\<rparr>)\<rparr>)
     = Some (sample_monitor\<lparr>mon_arguments := None\<rparr>) \<and>
   mon_arguments (sample_monitor\<lparr>mon_arguments := None\<rparr>) = None \<and>
   launcher_main
     (sample_world\<lparr>PSFQueryAppMonitorConfig := Some (sample_monitor\<lparr>mon_arguments := None\<rparr>)\<rparr>)
     [] 1 =
     ([Log (TAB @ ''In Launcher_main()'') [],
       Log (TAB @ ''Creating the monitor: %ls'') [ArgW ''mon.exe'']],
      Crashed)"
proof -
  let ?m = "sample_monitor\<lparr>mon_arguments := None\<rparr>"
  let ?w = "sample_world\<lparr>PSFQueryAppMonitorConfig := Some ?m\<rparr>"
  have h1: "PSFQueryCurrentAppLaunchConfig ?w = Some sample_app" by (simp add: sample_world_def)
  have h2: "app_executable sample_app = Some ''app.exe''" by (simp add: sample_app_def)
  have h3: "PSFQueryAppMonitorConfig ?w = Some ?m" by simp
  have h4: "mon_executable ?m = None \<or> mon_arguments ?m = None" by simp
  have me: "mon_executable ?m = Some ''mon.exe''" by (simp add: sample_monitor_def)
  from monitor_fields_dereferenced_unguarded [OF h1 h2 h3 h4, of "[]" 1] h1 h2 h3
  show ?thesis by (simp add: me)
qed

end
